theory Spec2Isabelle
  imports Complex_Main
begin

section \<open>Runtime values: errors, promises, await\<close>

text \<open>
  A thrown JavaScript \<open>Error\<close> is a value carrying its message. The outcome of
  evaluating a call is a sum: \<open>Inl e\<close> when \<open>e\<close> was thrown, \<open>Inr v\<close> when
  the call returned \<open>v\<close>. A settled promise is either fulfilled with a value or
  rejected with an error. Strings are sequences of bytes (UTF-8); the operations used below
  (comparison with a literal, emptiness, containing the ASCII character \<open>@\<close>) give the
  same answer on bytes as on UTF-16 code units.
\<close>

datatype error = Error string

datatype 'a promise = Fulfilled 'a | Rejected error

definition Promise_resolve :: "'a \<Rightarrow> 'a promise" where
  "Promise_resolve v = Fulfilled v"

text \<open>\<open>await p\<close> inside an async function: the value of a fulfilled promise, or the
  rejection reason thrown.\<close>

definition await :: "'a promise \<Rightarrow> error + 'a" where
  "await p = (case p of Fulfilled v \<Rightarrow> Inr v | Rejected e \<Rightarrow> Inl e)"

text \<open>The promise an \<open>async\<close> function returns for the outcome of its body: a returned
  value fulfils it, a thrown error rejects it.\<close>

definition async :: "error + 'a \<Rightarrow> 'a promise" where
  "async r = (case r of Inl e \<Rightarrow> Rejected e | Inr v \<Rightarrow> Fulfilled v)"

section \<open>The greeting use case and its controller\<close>

text \<open>
  Calls are modelled with explicit state passing over an arbitrary program state \<open>'s\<close>:
  a call takes the state before and returns its outcome with the state after.

  \<^verbatim>\<open>
  export class GetHelloUseCase implements UseCase<void, string> {
    execute(): Promise<string> {
      return Promise.resolve('Hello World!');
    }
  }
  \<close>
  \<open>execute\<close> is not an async function, so its outcome is a sum: it could throw
  before returning a promise.
\<close>

definition GetHelloUseCase_execute :: "'s \<Rightarrow> (error + string promise) \<times> 's" where
  "GetHelloUseCase_execute s = (Inr (Promise_resolve ''Hello World!''), s)"

text \<open>
  \<^verbatim>\<open>
  @Controller()
  export class AppController {
    constructor(private readonly getHelloUseCase: GetHelloUseCase) {}

    @Get()
    async getHello(): Promise<string> {
      return await this.getHelloUseCase.execute();
    }
  }
  \<close>
  The injected use case is the first argument (its \<open>execute\<close> method). The body calls
  it, awaits the promise it returns, and returns the awaited value; being \<open>async\<close>,
  \<open>getHello\<close> always returns a promise.
\<close>

definition AppController_getHello ::
  "('s \<Rightarrow> (error + string promise) \<times> 's) \<Rightarrow> 's \<Rightarrow> string promise \<times> 's" where
  "AppController_getHello getHelloUseCase s =
     (case getHelloUseCase s of
        (r, s') \<Rightarrow> (async (case r of Inl e \<Rightarrow> Inl e | Inr p \<Rightarrow> await p), s'))"

text \<open>The module wires the controller to the one provider, \<open>GetHelloUseCase\<close>:
  \<^verbatim>\<open>@Module({ imports: [], controllers: [AppController], providers: [GetHelloUseCase] })\<close>\<close>

definition AppModule_getHello :: "'s \<Rightarrow> string promise \<times> 's" where
  "AppModule_getHello = AppController_getHello GetHelloUseCase_execute"

section \<open>The HTTP surface\<close>

datatype http_method = GET | HEAD | POST | PUT | DELETE | PATCH | OPTIONS

record request =
  Request_method :: http_method
  Request_path :: string
  Request_headers :: "(string \<times> string) list"
  Request_body :: string

record response =
  Response_status :: nat
  Response_body :: string

text \<open>
  Modelled from the spec: the HTTP adapter that serves the controller (the bootstrap in
  \<open>main.ts\<close> and the framework's router and response mapping) is not among the source
  files. The spec gives one endpoint, \<open>GET /\<close>, answering status 200 with the text the
  handler produces. The route of the handler is read off its decorators (\<open>@Controller()\<close>
  and \<open>@Get()\<close>, both without a path); a request to any other route is answered 404 and
  a rejected handler promise 500 with the error's message, neither of which the results
  below depend on.
\<close>

definition handle_request :: "request \<Rightarrow> 's \<Rightarrow> response \<times> 's" where
  "handle_request req s =
     (if Request_method req = GET \<and> Request_path req = ''/'' then
        (case AppModule_getHello s of
           (Fulfilled v, s') \<Rightarrow> (\<lparr>Response_status = 200, Response_body = v\<rparr>, s')
         | (Rejected (Error m), s') \<Rightarrow> (\<lparr>Response_status = 500, Response_body = m\<rparr>, s'))
      else (\<lparr>Response_status = 404, Response_body = ''Not Found''\<rparr>, s))"

section \<open>Domain entities\<close>

text \<open>A \<open>Date\<close> is its time value, milliseconds since the epoch.\<close>

type_synonym Date = int



text \<open>\<open>String.prototype.startsWith\<close> and \<open>String.prototype.includes\<close>: whether the
  search string occurs at the start of, or anywhere in, the receiver.\<close>

fun String_startsWith :: "string \<Rightarrow> string \<Rightarrow> bool" where
  "String_startsWith s [] = True"
| "String_startsWith [] (c # cs) = False"
| "String_startsWith (d # ds) (c # cs) = (d = c \<and> String_startsWith ds cs)"

fun String_includes :: "string \<Rightarrow> string \<Rightarrow> bool" where
  "String_includes [] t = (t = [])"
| "String_includes (d # ds) t = (String_startsWith (d # ds) t \<or> String_includes ds t)"

text \<open>
  \<^verbatim>\<open>
  export class User {
    constructor(
      public readonly id: string,
      public readonly email: string,
      public readonly name: string,
      public readonly createdAt: Date = new Date(),
    ) {}
    ...
    public isValid(): boolean {
      return this.email.includes('@') && this.name.length > 0;
    }
  }
  \<close>
  The constructor has an empty body: it stores its arguments and cannot throw. Its first
  argument here is the clock reading that \<open>new Date()\<close> gives when \<open>createdAt\<close> is
  omitted.
\<close>

record User =
  User_id :: string
  User_email :: string
  User_name :: string
  User_createdAt :: Date

definition User_constructor :: "Date \<Rightarrow> string \<Rightarrow> string \<Rightarrow> string \<Rightarrow> Date option \<Rightarrow> User" where
  "User_constructor now i e n createdAt =
     \<lparr>User_id = i, User_email = e, User_name = n,
      User_createdAt = (case createdAt of None \<Rightarrow> now | Some d \<Rightarrow> d)\<rparr>"

definition User_isValid :: "User \<Rightarrow> bool" where
  "User_isValid this = (String_includes (User_email this) ''@'' \<and> length (User_name this) > 0)"

text \<open>
  \<^verbatim>\<open>
  export class Product {
    constructor(
      public readonly id: string,
      public readonly name: string,
      public readonly price: number,
      public readonly category: string,
    ) {}

    public applyDiscount(discountPercent: number): Product {
      if (discountPercent < 0 || discountPercent > 100) {
        throw new Error('Invalid discount percentage');
      }

      const newPrice = this.price * (1 - discountPercent / 100);
      return new Product(this.id, this.name, newPrice, this.category);
    }
  }
  \<close>
  Numbers are modelled as reals: the comparisons of the guard are exact on numbers, the
  arithmetic of \<open>newPrice\<close> is taken without rounding, and \<open>NaN\<close> and the infinities
  are not represented. The method returns its outcome together with the receiver as it is
  after the call.
\<close>

record Product =
  Product_id :: string
  Product_name :: string
  Product_price :: real
  Product_category :: string


section \<open>The in-memory product repository\<close>

text \<open>\<open>Array.prototype.findIndex\<close>: the index of the first element satisfying the
  predicate, or \<open>-1\<close> when there is none.\<close>

fun findIndex :: "('a \<Rightarrow> bool) \<Rightarrow> 'a list \<Rightarrow> int" where
  "findIndex P [] = - 1"
| "findIndex P (x # xs) =
     (if P x then 0 else (let i = findIndex P xs in if i < 0 then - 1 else i + 1))"

text \<open>
  \<^verbatim>\<open>
  export class ProductRepositoryImpl implements ProductRepository {
    private products: Product[] = []; // In-memory store for demo

    async findById(id: string): Promise<Product | null> {
      return this.products.find(p => p.id === id) || null;
    }

    async findByCategory(category: string): Promise<Product[]> {
      return this.products.filter(p => p.category === category);
    }

    async save(product: Product): Promise<void> {
      const index = this.products.findIndex(p => p.id === product.id);
      if (index >= 0) {
        this.products[index] = product;
      } else {
        this.products.push(product);
      }
    }

    async delete(id: string): Promise<void> {
      this.products = this.products.filter(p => p.id !== id);
    }
  }
  \<close>
  The repository object is its one field. A query returns its promise; a command returns
  its promise and the repository after the call. \<open>None\<close> stands for \<open>null\<close> (and for
  the \<open>undefined\<close> of \<open>find\<close>, which \<open>|| null\<close> turns into \<open>null\<close>; a product
  object is never falsy).
\<close>

record ProductRepositoryImpl =
  products :: "Product list"

definition ProductRepositoryImpl_new :: ProductRepositoryImpl where
  "ProductRepositoryImpl_new = \<lparr>products = []\<rparr>"

definition ProductRepositoryImpl_findById ::
  "ProductRepositoryImpl \<Rightarrow> string \<Rightarrow> Product option promise" where
  "ProductRepositoryImpl_findById this i =
     async (Inr (find (\<lambda>p. Product_id p = i) (products this)))"

definition ProductRepositoryImpl_findByCategory ::
  "ProductRepositoryImpl \<Rightarrow> string \<Rightarrow> Product list promise" where
  "ProductRepositoryImpl_findByCategory this category =
     async (Inr (filter (\<lambda>p. Product_category p = category) (products this)))"

definition ProductRepositoryImpl_save ::
  "ProductRepositoryImpl \<Rightarrow> Product \<Rightarrow> unit promise \<times> ProductRepositoryImpl" where
  "ProductRepositoryImpl_save this product =
     (let index = findIndex (\<lambda>p. Product_id p = Product_id product) (products this)
      in if index \<ge> 0
         then (async (Inr ()), this\<lparr>products := (products this)[nat index := product]\<rparr>)
         else (async (Inr ()), this\<lparr>products := products this @ [product]\<rparr>))"

definition ProductRepositoryImpl_delete ::
  "ProductRepositoryImpl \<Rightarrow> string \<Rightarrow> unit promise \<times> ProductRepositoryImpl" where
  "ProductRepositoryImpl_delete this i =
     (async (Inr ()), this\<lparr>products := filter (\<lambda>p. Product_id p \<noteq> i) (products this)\<rparr>)"

text \<open>The field is private, so the states a repository can be in are those reached from a
  new one by a sequence of calls of its four methods.\<close>

datatype call = Save Product | Delete string | FindById string | FindByCategory string

fun perform :: "ProductRepositoryImpl \<Rightarrow> call \<Rightarrow> ProductRepositoryImpl" where
  "perform this (Save product) = snd (ProductRepositoryImpl_save this product)"
| "perform this (Delete i) = snd (ProductRepositoryImpl_delete this i)"
| "perform this (FindById i) = this"
| "perform this (FindByCategory c) = this"

definition after_calls :: "call list \<Rightarrow> ProductRepositoryImpl" where
  "after_calls cs = foldl perform ProductRepositoryImpl_new cs"

section \<open>The create-user use case\<close>

text \<open>
  The interface \<open>UserRepository\<close> is a parameter: a repository with state \<open>'r\<close> is
  given by its finder, which reads the state and returns a promise, and its \<open>save\<close>,
  which returns a promise and the state after the call. Either promise may be rejected.
\<close>

record 'r UserRepository =
  UserRepository_findByEmail :: "'r \<Rightarrow> string \<Rightarrow> User option promise"
  UserRepository_save :: "'r \<Rightarrow> User \<Rightarrow> unit promise \<times> 'r"

record CreateUserRequest =
  CreateUserRequest_email :: string
  CreateUserRequest_name :: string

text \<open>
  \<^verbatim>\<open>
  async execute(request: CreateUserRequest): Promise<User> {
    if (!request.email || !request.name) {
      throw new Error('Email and name are required');
    }
    const existingUser = await this.userRepository.findByEmail(request.email);
    if (existingUser) {
      throw new Error('User with this email already exists');
    }
    const user = new User(this.generateId(), request.email, request.name);
    if (!user.isValid()) {
      throw new Error('Invalid user data');
    }
    await this.userRepository.save(user);
    return user;
  }

  private generateId(): string {
    return Date.now().toString() + Math.random().toString(36).substr(2, 9);
  }
  \<close>
  A string is falsy exactly when it is empty; a user object is truthy and \<open>null\<close> falsy.
  The string that \<open>generateId()\<close> builds from the clock and the random number
  generator, and the clock reading of \<open>new Date()\<close>, are inputs of the model.
\<close>

definition CreateUserUseCase_execute ::
  "'r UserRepository \<Rightarrow> string \<Rightarrow> Date \<Rightarrow> CreateUserRequest \<Rightarrow> 'r \<Rightarrow> User promise \<times> 'r" where
  "CreateUserUseCase_execute userRepository generatedId now request r =
     (if CreateUserRequest_email request = [] \<or> CreateUserRequest_name request = [] then
        (async (Inl (Error ''Email and name are required'')), r)
      else
        (case await (UserRepository_findByEmail userRepository r (CreateUserRequest_email request)) of
           Inl e \<Rightarrow> (async (Inl e), r)
         | Inr existingUser \<Rightarrow>
             (if existingUser \<noteq> None then
                (async (Inl (Error ''User with this email already exists'')), r)
              else
                (let user = User_constructor now generatedId (CreateUserRequest_email request)
                              (CreateUserRequest_name request) None
                 in if \<not> User_isValid user then
                      (async (Inl (Error ''Invalid user data'')), r)
                    else
                      (case UserRepository_save userRepository r user of
                         (saved, r') \<Rightarrow>
                           (case await saved of
                              Inl e \<Rightarrow> (async (Inl e), r')
                            | Inr u \<Rightarrow> (async (Inr user), r')))))))"

text \<open>A repository kept in a list, for running the use case on concrete requests: the
  finder returns the first stored user with the email, \<open>save\<close> appends.\<close>

definition InMemoryUserRepository :: "User list UserRepository" where
  "InMemoryUserRepository =
     \<lparr>UserRepository_findByEmail = (\<lambda>us e. Fulfilled (find (\<lambda>u. User_email u = e) us)),
      UserRepository_save = (\<lambda>us u. (Fulfilled (), us @ [u]))\<rparr>"

section \<open>Results on the greeting path\<close>

lemma async_await: "async (await p) = p"
  by (cases p) (simp_all add: async_def await_def)

lemma getHello_forwards:
  "AppController_getHello uc s =
     (case uc s of (Inl e, s') \<Rightarrow> (Rejected e, s') | (Inr p, s') \<Rightarrow> (p, s'))"
proof (cases "uc s")
  case (Pair r s')
  then show ?thesis
    by (cases r) (simp_all add: AppController_getHello_def async_await, simp add: async_def)
qed

lemma AppModule_getHello_eq: "AppModule_getHello s = (Fulfilled ''Hello World!'', s)"
  by (simp add: AppModule_getHello_def getHello_forwards GetHelloUseCase_execute_def
      Promise_resolve_def)

text \<open>
  C1. \<open>GetHelloUseCase.execute()\<close> takes no input and, from every program state, returns
  a promise fulfilled with the fixed string "Hello World!".
\<close>

theorem execute_returns_hello:
  "fst (GetHelloUseCase_execute s) = Inr (Fulfilled ''Hello World!'')"
  by (simp add: GetHelloUseCase_execute_def Promise_resolve_def)

text \<open>
  C2. Every request with method GET and path \<open>/\<close>, whatever its headers and body and
  whatever the program state, is answered with status 200 and the body "Hello World!".
\<close>

theorem get_root_responds_hello:
  assumes "Request_method req = GET" and "Request_path req = ''/''"
  shows "fst (handle_request req s) = \<lparr>Response_status = 200, Response_body = ''Hello World!''\<rparr>"
  using assms by (simp add: handle_request_def AppModule_getHello_eq)

theorem get_root_responds_hello_witness:
  "fst (handle_request
          \<lparr>Request_method = GET, Request_path = ''/'',
           Request_headers = [(''accept'', ''*/*'')], Request_body = ''''\<rparr> (0::nat))
     = \<lparr>Response_status = 200, Response_body = ''Hello World!''\<rparr>"
  using get_root_responds_hello
    [of "\<lparr>Request_method = GET, Request_path = ''/'',
          Request_headers = [(''accept'', ''*/*'')], Request_body = ''''\<rparr>" "0::nat"]
  by simp

text \<open>
  C3. The execution path cannot fail: \<open>execute()\<close> does not throw (its outcome is a
  returned promise), the promise it returns is fulfilled, not rejected, and the promise
  \<open>AppController.getHello\<close> returns for it is fulfilled as well.
\<close>

theorem greeting_path_never_fails:
  "(\<exists>v. fst (GetHelloUseCase_execute s) = Inr (Fulfilled v)) \<and>
   (\<exists>v. fst (AppController_getHello GetHelloUseCase_execute s) = Fulfilled v)"
  by (simp add: getHello_forwards GetHelloUseCase_execute_def Promise_resolve_def)

text \<open>
  C4. The controller is a pass-through: with the greeting use case injected,
  \<open>getHello()\<close> returns the very promise (and leaves the very state) that
  \<open>execute()\<close> produces; and for any injected use case whose \<open>execute\<close> returns a
  promise \<open>p\<close>, \<open>getHello()\<close> settles exactly as \<open>p\<close> does.
\<close>

theorem getHello_is_pass_through:
  "map_prod Inr id (AppController_getHello GetHelloUseCase_execute s) = GetHelloUseCase_execute s \<and>
   AppController_getHello (\<lambda>t. (Inr p, f t)) s = (p, f s)"
  by (simp add: getHello_forwards GetHelloUseCase_execute_def)

text \<open>
  C5. A call of \<open>execute()\<close>, and a call of the \<open>GET /\<close> handler \<open>getHello()\<close>
  wired to it, leave the program state exactly as it was, for every state of every type:
  the greeting path writes no state and, the type of the state being arbitrary, reads none.
\<close>

theorem greeting_has_no_side_effects:
  "snd (GetHelloUseCase_execute s) = s \<and>
   snd (AppController_getHello GetHelloUseCase_execute s) = s \<and>
   snd (AppModule_getHello s) = s"
  by (simp add: GetHelloUseCase_execute_def AppModule_getHello_eq getHello_forwards)

section \<open>Results on the entities\<close>

lemma includes_char: "String_includes s [c] = (c \<in> set s)"
proof (induction s)
  case Nil
  show ?case by simp
next
  case (Cons d ds)
  then show ?case by (cases ds) auto
qed

lemma isValid_iff:
  "User_isValid u \<longleftrightarrow> CHR ''@'' \<in> set (User_email u) \<and> User_name u \<noteq> []"
  by (simp add: User_isValid_def includes_char)

lemmas execute_unfold =
  CreateUserUseCase_execute_def Let_def async_def await_def

lemma execute_fulfilled_valid:
  assumes "fst (CreateUserUseCase_execute R gid now req r) = Fulfilled u"
  shows "u = User_constructor now gid (CreateUserRequest_email req)
               (CreateUserRequest_name req) None \<and> User_isValid u"
  using assms
  by (auto simp: execute_unfold split: if_splits sum.splits promise.splits prod.splits)

text \<open>
  C6 (as stated). The claim that every constructed \<open>User\<close> has an email containing
  \<open>@\<close> fails: the constructor checks nothing, so constructing a user with the email
  "bob.example.com" succeeds.
\<close>

theorem constructor_unchecked_counterexample:
  "\<not> String_includes
        (User_email (User_constructor 0 ''1'' ''bob.example.com'' ''Bob'' None)) ''@''"
  by (simp add: User_constructor_def)

text \<open>
  C6 (amended). The \<open>User\<close> constructor applies no check: it stores whatever email it
  is given. The check that the email contains \<open>@\<close> is made by \<open>isValid()\<close>, which
  \<open>CreateUserUseCase.execute\<close> calls after construction: every user for which
  \<open>isValid()\<close> is true, and every user that \<open>execute\<close> resolves to, has an email
  containing \<open>@\<close>.
\<close>

theorem email_check_is_isValid:
  "User_email (User_constructor now i e n c) = e \<and>
   (User_isValid u \<longrightarrow> CHR ''@'' \<in> set (User_email u)) \<and>
   (fst (CreateUserUseCase_execute R gid now req r) = Fulfilled v \<longrightarrow>
      CHR ''@'' \<in> set (User_email v))"
  using execute_fulfilled_valid [of R gid now req r v]
  by (auto simp: User_constructor_def isValid_iff)

theorem email_check_is_isValid_witness:
  "User_isValid (User_constructor 0 ''1'' ''ann@example.com'' ''Ann'' None) \<and>
   CHR ''@'' \<in> set (User_email (User_constructor 0 ''1'' ''ann@example.com'' ''Ann'' None)) \<and>
   fst (CreateUserUseCase_execute InMemoryUserRepository ''1'' 0
          \<lparr>CreateUserRequest_email = ''ann@example.com'', CreateUserRequest_name = ''Ann''\<rparr> [])
     = Fulfilled (User_constructor 0 ''1'' ''ann@example.com'' ''Ann'' None)"
  using email_check_is_isValid
    [where u = "User_constructor 0 ''1'' ''ann@example.com'' ''Ann'' None"
       and v = "User_constructor 0 ''1'' ''ann@example.com'' ''Ann'' None"
       and R = InMemoryUserRepository and gid = "''1''" and now = 0 and r = "[]"
       and req = "\<lparr>CreateUserRequest_email = ''ann@example.com'', CreateUserRequest_name = ''Ann''\<rparr>"]
  by (simp add: execute_unfold InMemoryUserRepository_def User_isValid_def User_constructor_def)



section \<open>Results on the create-user use case\<close>

text \<open>
  C9. Let \<open>execute\<close> settle with promise \<open>p\<close> and leave the repository in state
  \<open>r'\<close>. If the request's email or name is empty, or the finder resolves to an existing
  user, or the constructed user fails \<open>isValid()\<close>, then \<open>p\<close> is rejected, the
  repository state is unchanged, and the outcome is the same whatever \<open>save\<close> is, so
  \<open>save\<close> is not invoked; the three errors carry the messages of the source. If
  \<open>p\<close> is fulfilled, its user has the request's email and name and is the user that
  \<open>save\<close> was called with, that call having produced \<open>r'\<close>. A rejection that
  changed the state can only be a rejection of \<open>save\<close> itself.
\<close>

theorem execute_atomic_on_error:
  assumes "CreateUserUseCase_execute R gid now req r = (p, r')"
  shows
    "((CreateUserRequest_email req = [] \<or> CreateUserRequest_name req = [] \<or>
       (\<exists>u. UserRepository_findByEmail R r (CreateUserRequest_email req) = Fulfilled (Some u)) \<or>
       \<not> User_isValid (User_constructor now gid (CreateUserRequest_email req)
                         (CreateUserRequest_name req) None)) \<longrightarrow>
        (\<exists>e. p = Rejected e) \<and> r' = r \<and>
        (\<forall>sv. CreateUserUseCase_execute (R\<lparr>UserRepository_save := sv\<rparr>) gid now req r = (p, r))) \<and>
     (CreateUserRequest_email req = [] \<or> CreateUserRequest_name req = [] \<longrightarrow>
        p = Rejected (Error ''Email and name are required'')) \<and>
     (CreateUserRequest_email req \<noteq> [] \<and> CreateUserRequest_name req \<noteq> [] \<and>
      (\<exists>u. UserRepository_findByEmail R r (CreateUserRequest_email req) = Fulfilled (Some u)) \<longrightarrow>
        p = Rejected (Error ''User with this email already exists'')) \<and>
     (CreateUserRequest_email req \<noteq> [] \<and> CreateUserRequest_name req \<noteq> [] \<and>
      UserRepository_findByEmail R r (CreateUserRequest_email req) = Fulfilled None \<and>
      \<not> User_isValid (User_constructor now gid (CreateUserRequest_email req)
                         (CreateUserRequest_name req) None) \<longrightarrow>
        p = Rejected (Error ''Invalid user data'')) \<and>
     (\<forall>u. p = Fulfilled u \<longrightarrow>
        User_email u = CreateUserRequest_email req \<and>
        User_name u = CreateUserRequest_name req \<and>
        UserRepository_save R r u = (Fulfilled (), r')) \<and>
     ((\<exists>e. p = Rejected e) \<longrightarrow>
        r' = r \<or> (\<exists>u e. UserRepository_save R r u = (Rejected e, r')))"
proof (intro conjI impI allI)
  assume g: "CreateUserRequest_email req = [] \<or> CreateUserRequest_name req = [] \<or>
       (\<exists>u. UserRepository_findByEmail R r (CreateUserRequest_email req) = Fulfilled (Some u)) \<or>
       \<not> User_isValid (User_constructor now gid (CreateUserRequest_email req)
                         (CreateUserRequest_name req) None)"
  show "\<exists>e. p = Rejected e"
    using assms g
    by (auto simp: execute_unfold split: if_splits sum.splits promise.splits prod.splits)
  show "r' = r"
    using assms g
    by (auto simp: execute_unfold split: if_splits sum.splits promise.splits prod.splits)
  fix sv
  show "CreateUserUseCase_execute (R\<lparr>UserRepository_save := sv\<rparr>) gid now req r = (p, r)"
    using assms g
    by (auto simp: execute_unfold split: if_splits sum.splits promise.splits prod.splits)
next
  assume "CreateUserRequest_email req = [] \<or> CreateUserRequest_name req = []"
  with assms show "p = Rejected (Error ''Email and name are required'')"
    by (auto simp: execute_unfold)
next
  assume "CreateUserRequest_email req \<noteq> [] \<and> CreateUserRequest_name req \<noteq> [] \<and>
      (\<exists>u. UserRepository_findByEmail R r (CreateUserRequest_email req) = Fulfilled (Some u))"
  with assms show "p = Rejected (Error ''User with this email already exists'')"
    by (auto simp: execute_unfold)
next
  assume "CreateUserRequest_email req \<noteq> [] \<and> CreateUserRequest_name req \<noteq> [] \<and>
      UserRepository_findByEmail R r (CreateUserRequest_email req) = Fulfilled None \<and>
      \<not> User_isValid (User_constructor now gid (CreateUserRequest_email req)
                         (CreateUserRequest_name req) None)"
  with assms show "p = Rejected (Error ''Invalid user data'')"
    by (auto simp: execute_unfold)
next
  fix u assume "p = Fulfilled u"
  with assms show "User_email u = CreateUserRequest_email req"
    and "User_name u = CreateUserRequest_name req"
    and "UserRepository_save R r u = (Fulfilled (), r')"
    by (auto simp: execute_unfold User_constructor_def
        split: if_splits sum.splits promise.splits prod.splits)
next
  assume "\<exists>e. p = Rejected e"
  with assms show "r' = r \<or> (\<exists>u e. UserRepository_save R r u = (Rejected e, r'))"
    by (auto simp: execute_unfold split: if_splits sum.splits promise.splits prod.splits)
qed

theorem execute_atomic_on_error_witness:
  "CreateUserUseCase_execute InMemoryUserRepository ''7'' 0
     \<lparr>CreateUserRequest_email = ''bob'', CreateUserRequest_name = ''Bob''\<rparr> []
     = (Rejected (Error ''Invalid user data''), []) \<and>
   (\<forall>sv. CreateUserUseCase_execute (InMemoryUserRepository\<lparr>UserRepository_save := sv\<rparr>) ''7'' 0
     \<lparr>CreateUserRequest_email = ''bob'', CreateUserRequest_name = ''Bob''\<rparr> []
     = (Rejected (Error ''Invalid user data''), [])) \<and>
   CreateUserUseCase_execute InMemoryUserRepository ''7'' 0
     \<lparr>CreateUserRequest_email = ''bob@example.com'', CreateUserRequest_name = []\<rparr> []
     = (Rejected (Error ''Email and name are required''), []) \<and>
   CreateUserUseCase_execute InMemoryUserRepository ''7'' 0
     \<lparr>CreateUserRequest_email = ''bob@example.com'', CreateUserRequest_name = ''Bob''\<rparr>
     [User_constructor 0 ''3'' ''bob@example.com'' ''Robert'' None]
     = (Rejected (Error ''User with this email already exists''),
        [User_constructor 0 ''3'' ''bob@example.com'' ''Robert'' None]) \<and>
   CreateUserUseCase_execute InMemoryUserRepository ''7'' 0
     \<lparr>CreateUserRequest_email = ''bob@example.com'', CreateUserRequest_name = ''Bob''\<rparr> []
     = (Fulfilled (User_constructor 0 ''7'' ''bob@example.com'' ''Bob'' None),
        [User_constructor 0 ''7'' ''bob@example.com'' ''Bob'' None]) \<and>
   UserRepository_save InMemoryUserRepository []
       (User_constructor 0 ''7'' ''bob@example.com'' ''Bob'' None)
     = (Fulfilled (), [User_constructor 0 ''7'' ''bob@example.com'' ''Bob'' None])"
proof -
  have bad: "CreateUserUseCase_execute InMemoryUserRepository ''7'' 0
     \<lparr>CreateUserRequest_email = ''bob'', CreateUserRequest_name = ''Bob''\<rparr> []
     = (Rejected (Error ''Invalid user data''), [])"
    by (simp add: execute_unfold InMemoryUserRepository_def User_isValid_def User_constructor_def)
  have missing: "CreateUserUseCase_execute InMemoryUserRepository ''7'' 0
     \<lparr>CreateUserRequest_email = ''bob@example.com'', CreateUserRequest_name = []\<rparr> []
     = (Rejected (Error ''Email and name are required''), [])"
    by (simp add: execute_unfold)
  have taken: "CreateUserUseCase_execute InMemoryUserRepository ''7'' 0
     \<lparr>CreateUserRequest_email = ''bob@example.com'', CreateUserRequest_name = ''Bob''\<rparr>
     [User_constructor 0 ''3'' ''bob@example.com'' ''Robert'' None]
     = (Rejected (Error ''User with this email already exists''),
        [User_constructor 0 ''3'' ''bob@example.com'' ''Robert'' None])"
    by (simp add: execute_unfold InMemoryUserRepository_def User_constructor_def)
  have good: "CreateUserUseCase_execute InMemoryUserRepository ''7'' 0
     \<lparr>CreateUserRequest_email = ''bob@example.com'', CreateUserRequest_name = ''Bob''\<rparr> []
     = (Fulfilled (User_constructor 0 ''7'' ''bob@example.com'' ''Bob'' None),
        [User_constructor 0 ''7'' ''bob@example.com'' ''Bob'' None])"
    by (simp add: execute_unfold InMemoryUserRepository_def User_isValid_def User_constructor_def)
  have nv: "\<not> User_isValid (User_constructor 0 ''7'' ''bob'' ''Bob'' None)"
    by (simp add: User_isValid_def User_constructor_def)
  show ?thesis
    using execute_atomic_on_error [OF bad] execute_atomic_on_error [OF good]
      nv bad missing taken good
    by simp
qed

section \<open>Results on the product repository\<close>

lemma findIndex_ge: "findIndex P xs \<ge> - 1"
  by (induction xs) (auto simp: Let_def)

lemma findIndex_neg: "findIndex P xs < 0 \<longleftrightarrow> (\<forall>x \<in> set xs. \<not> P x)"
  using findIndex_ge [of P]
  by (induction xs) (auto simp: Let_def)

lemma find_snoc_fresh:
  "(\<forall>x \<in> set xs. \<not> P x) \<Longrightarrow> find P (xs @ [y]) = (if P y then Some y else None)"
  by (induction xs) auto

lemma findIndex_tail:
  assumes "findIndex P (x # xs) \<ge> 0" and "\<not> P x"
  shows "findIndex P xs \<ge> 0"
    and "nat (findIndex P (x # xs)) = Suc (nat (findIndex P xs))"
proof -
  from assms show ge: "findIndex P xs \<ge> 0"
    by (auto simp: Let_def split: if_splits)
  with assms(2) show "nat (findIndex P (x # xs)) = Suc (nat (findIndex P xs))"
    by (simp add: Let_def nat_add_distrib)
qed

lemma find_replaced:
  "findIndex P xs \<ge> 0 \<Longrightarrow> P y \<Longrightarrow> find P (xs[nat (findIndex P xs) := y]) = Some y"
proof (induction xs)
  case Nil
  then show ?case by simp
next
  case (Cons x xs)
  show ?case
  proof (cases "P x")
    case True
    with Cons.prems show ?thesis by simp
  next
    case False
    note tl = findIndex_tail [OF Cons.prems(1) False]
    from Cons.IH [OF tl(1) Cons.prems(2)] False show ?thesis
      by (simp only: tl(2) list_update_code find.simps if_False)
  qed
qed

lemma ids_replaced:
  "findIndex (\<lambda>q. f q = f y) xs \<ge> 0 \<Longrightarrow>
     map f (xs[nat (findIndex (\<lambda>q. f q = f y) xs) := y]) = map f xs"
proof (induction xs)
  case Nil
  then show ?case by simp
next
  case (Cons x xs)
  show ?case
  proof (cases "f x = f y")
    case True
    then show ?thesis by simp
  next
    case False
    note tl = findIndex_tail [OF Cons.prems False]
    from Cons.IH [OF tl(1)] show ?thesis
      by (simp only: tl(2) list_update_code list.map)
  qed
qed

lemma save_then_find:
  "ProductRepositoryImpl_findById (snd (ProductRepositoryImpl_save this p)) (Product_id p)
     = Fulfilled (Some p)"
  by (simp add: ProductRepositoryImpl_findById_def ProductRepositoryImpl_save_def Let_def
      async_def find_replaced find_snoc_fresh findIndex_neg [symmetric] not_le)

lemma save_ids:
  "map Product_id (products (snd (ProductRepositoryImpl_save this p))) =
     (if Product_id p \<in> set (map Product_id (products this))
      then map Product_id (products this)
      else map Product_id (products this) @ [Product_id p])"
proof (cases "findIndex (\<lambda>q. Product_id q = Product_id p) (products this) < 0")
  case True
  then have "Product_id p \<notin> set (map Product_id (products this))"
    by (auto simp: findIndex_neg)
  with True show ?thesis
    by (simp add: ProductRepositoryImpl_save_def Let_def not_le)
next
  case False
  then obtain q where "q \<in> set (products this)" "Product_id q = Product_id p"
    by (auto simp: findIndex_neg)
  then have "Product_id p \<in> set (map Product_id (products this))"
    by (metis image_eqI set_map)
  with False show ?thesis
    by (simp add: ProductRepositoryImpl_save_def Let_def ids_replaced not_less)
qed

lemma perform_distinct:
  "distinct (map Product_id (products this)) \<Longrightarrow>
     distinct (map Product_id (products (perform this c)))"
  by (cases c) (simp_all add: save_ids ProductRepositoryImpl_delete_def distinct_map_filter)

lemma foldl_perform_distinct:
  "distinct (map Product_id (products this)) \<Longrightarrow>
     distinct (map Product_id (products (foldl perform this cs)))"
  by (induction cs arbitrary: this) (simp_all add: perform_distinct)


text \<open>
  C10. In every state, \<open>save(p)\<close> resolves and a following \<open>findById(p.id)\<close>
  resolves to \<open>p\<close>. \<open>save\<close> is an upsert: if a product with \<open>p\<close>'s id is stored,
  the sequence of stored ids is unchanged (the product is replaced in place), otherwise
  \<open>p\<close>'s id is appended. After any sequence of calls on a new repository, the stored
  products have pairwise different ids.
\<close>

theorem save_is_upsert:
  "fst (ProductRepositoryImpl_save this p) = Fulfilled () \<and>
   ProductRepositoryImpl_findById (snd (ProductRepositoryImpl_save this p)) (Product_id p)
     = Fulfilled (Some p) \<and>
   map Product_id (products (snd (ProductRepositoryImpl_save this p))) =
     (if Product_id p \<in> set (map Product_id (products this))
      then map Product_id (products this)
      else map Product_id (products this) @ [Product_id p]) \<and>
   distinct (map Product_id (products (after_calls cs)))"
proof (intro conjI)
  show "fst (ProductRepositoryImpl_save this p) = Fulfilled ()"
    by (simp add: ProductRepositoryImpl_save_def Let_def async_def)
  show "ProductRepositoryImpl_findById (snd (ProductRepositoryImpl_save this p)) (Product_id p)
     = Fulfilled (Some p)"
    by (rule save_then_find)
  show "map Product_id (products (snd (ProductRepositoryImpl_save this p))) =
     (if Product_id p \<in> set (map Product_id (products this))
      then map Product_id (products this)
      else map Product_id (products this) @ [Product_id p])"
    by (rule save_ids)
  show "distinct (map Product_id (products (after_calls cs)))"
    unfolding after_calls_def
    by (rule foldl_perform_distinct) (simp add: ProductRepositoryImpl_new_def)
qed

section \<open>Logic beyond the greeting\<close>




end
